theory Spec2Isabelle
  imports Complex_Main "HOL-Library.Log_Nat" "HOL-Library.Multiset"
begin

section \<open>Python values read from the embedded JSON\<close>

text \<open>
  \<^verbatim>\<open>structure = json.loads(...)\<close> yields Python objects: \<^verbatim>\<open>None\<close>, \<^verbatim>\<open>bool\<close>,
  \<^verbatim>\<open>int\<close> (unbounded), \<^verbatim>\<open>float\<close> (IEEE 754 binary64, with \<^verbatim>\<open>NaN\<close> and
  \<^verbatim>\<open>Infinity\<close>, which \<^verbatim>\<open>json.loads\<close> accepts), \<^verbatim>\<open>str\<close>, \<^verbatim>\<open>list\<close> and \<^verbatim>\<open>dict\<close>.

  A \<^verbatim>\<open>str\<close> is a sequence of Unicode code points, here a list of naturals; \<open>ustr\<close>
  writes an ASCII literal of the source. A \<^verbatim>\<open>dict\<close> is its list of items in insertion
  order; the keys of a dict are distinct, so \<open>map_of\<close> is its lookup and \<open>map fst\<close> its
  \<^verbatim>\<open>keys()\<close>.
\<close>

type_synonym pystr = "nat list"

definition ustr :: "string \<Rightarrow> pystr" where
  "ustr s = map of_char s"

text \<open>
  A float is a finite binary64 value, given by the rational it denotes (\<open>Finite 0\<close> is
  \<^verbatim>\<open>0.0\<close>), the negative zero, an infinity or a NaN.
\<close>

datatype pyfloat = Finite rat | NegZero | PosInf | NegInf | NaN

datatype json =
    JNull
  | JBool bool
  | JInt int
  | JFloat pyfloat
  | JStr pystr
  | JList "json list"
  | JDict "(pystr \<times> json) list"

datatype error = AttributeError | OverflowError | ValueError | TypeError

section \<open>Binary64 arithmetic\<close>

text \<open>Round to the nearest integer, ties to the even one.\<close>

definition rint :: "rat \<Rightarrow> int" where
  "rint q = (let f = \<lfloor>q\<rfloor>; d = q - of_int f in
     if d < 1 / 2 then f else if 1 / 2 < d then f + 1 else if even f then f else f + 1)"

text \<open>The exponent of the leading bit of a positive rational: \<open>\<lfloor>log\<^sub>2 q\<rfloor>\<close>.\<close>

definition ilog2 :: "rat \<Rightarrow> int" where
  "ilog2 q = (if 1 \<le> q then bitlen \<lfloor>q\<rfloor> - 1 else - bitlen (\<lceil>1 / q\<rceil> - 1))"

text \<open>
  The binary64 value nearest to a rational (round to nearest, ties to even): 53 bits of
  significand, the exponent of the last bit at least \<open>-1074\<close> (subnormal numbers), and an
  infinity when the rounded value reaches \<open>2 ^ 1024\<close>.
\<close>

definition round_double :: "rat \<Rightarrow> pyfloat" where
  "round_double q =
     (if q = 0 then Finite 0
      else
        let e = max (ilog2 \<bar>q\<bar> - 52) (- 1074);
            m = rint (\<bar>q\<bar> / 2 powi e);
            v = of_int m * 2 powi e
        in if 2 ^ 1024 \<le> v then (if q < 0 then NegInf else PosInf)
           else if m = 0 then (if q < 0 then NegZero else Finite 0)
           else Finite (if q < 0 then - v else v))"

fun is_nan :: "pyfloat \<Rightarrow> bool" where
  "is_nan NaN = True"
| "is_nan _ = False"

fun is_inf :: "pyfloat \<Rightarrow> bool" where
  "is_inf PosInf = True"
| "is_inf NegInf = True"
| "is_inf _ = False"

fun is_neg :: "pyfloat \<Rightarrow> bool" where
  "is_neg (Finite q) = (q < 0)"
| "is_neg NegZero = True"
| "is_neg NegInf = True"
| "is_neg _ = False"

text \<open>The value of a finite float (both zeros are 0).\<close>

fun fin_val :: "pyfloat \<Rightarrow> rat" where
  "fin_val (Finite q) = q"
| "fin_val _ = 0"

definition is_zero :: "pyfloat \<Rightarrow> bool" where
  "is_zero x = (x = Finite 0 \<or> x = NegZero)"

text \<open>\<^verbatim>\<open>x * y\<close> on floats.\<close>

definition fl_mul :: "pyfloat \<Rightarrow> pyfloat \<Rightarrow> pyfloat" where
  "fl_mul x y =
     (if is_nan x \<or> is_nan y then NaN
      else if is_inf x \<or> is_inf y then
        (if is_zero x \<or> is_zero y then NaN
         else if is_neg x \<noteq> is_neg y then NegInf else PosInf)
      else if is_zero x \<or> is_zero y then
        (if is_neg x \<noteq> is_neg y then NegZero else Finite 0)
      else round_double (fin_val x * fin_val y))"

text \<open>
  \<^verbatim>\<open>round(x, ndigits)\<close> on a float, for \<^verbatim>\<open>ndigits >= 0\<close>: CPython writes \<open>x\<close> in decimal with
  \<open>ndigits\<close> digits after the point, correctly rounded (ties of the exact binary value go to
  the even digit), and reads the decimal back as the nearest float. The sign survives a
  result of zero; infinities and NaN round to themselves, and so does every float when
  \<open>ndigits\<close> is above 323.
\<close>

definition py_round :: "pyfloat \<Rightarrow> nat \<Rightarrow> pyfloat" where
  "py_round x ndigits =
     (case x of
        Finite q \<Rightarrow>
          if 323 < ndigits then x
          else
            let k = rint (q * 10 ^ ndigits) in
            if k = 0 then (if q < 0 then NegZero else Finite 0)
            else round_double (of_int k / 10 ^ ndigits)
      | _ \<Rightarrow> x)"

text \<open>The comparisons of floats: every comparison with a NaN is false, the zeros are equal.\<close>

fun fl_rank :: "pyfloat \<Rightarrow> int" where
  "fl_rank NegInf = - 1"
| "fl_rank PosInf = 1"
| "fl_rank _ = 0"

definition fl_lt :: "pyfloat \<Rightarrow> pyfloat \<Rightarrow> bool" where
  "fl_lt x y = (\<not> is_nan x \<and> \<not> is_nan y \<and>
     (fl_rank x < fl_rank y \<or> (fl_rank x = fl_rank y \<and> fin_val x < fin_val y)))"

definition fl_eq :: "pyfloat \<Rightarrow> pyfloat \<Rightarrow> bool" where
  "fl_eq x y = (\<not> is_nan x \<and> \<not> is_nan y \<and> fl_rank x = fl_rank y \<and> fin_val x = fin_val y)"

definition fl_ge :: "pyfloat \<Rightarrow> pyfloat \<Rightarrow> bool" where
  "fl_ge x y = (fl_lt y x \<or> fl_eq x y)"

section \<open>Built-ins the script calls\<close>

text \<open>
  \<^verbatim>\<open>float(v)\<close>. A bool is an int; an int becomes the nearest float, or \<^verbatim>\<open>OverflowError\<close>
  when that is not finite; a float is itself; \<^verbatim>\<open>None\<close>, a list and a dict give
  \<^verbatim>\<open>TypeError\<close>. The reading of a \<^verbatim>\<open>str\<close> as a float literal is Python's own and not part
  of the script: it is the parameter \<open>parse\<close>, \<open>None\<close> where \<^verbatim>\<open>float\<close> raises
  \<^verbatim>\<open>ValueError\<close>.
\<close>

fun py_float :: "(pystr \<Rightarrow> pyfloat option) \<Rightarrow> json \<Rightarrow> error + pyfloat" where
  "py_float parse JNull = Inl TypeError"
| "py_float parse (JBool b) = Inr (Finite (if b then 1 else 0))"
| "py_float parse (JInt n) =
     (if is_inf (round_double (of_int n)) then Inl OverflowError
      else Inr (round_double (of_int n)))"
| "py_float parse (JFloat x) = Inr x"
| "py_float parse (JStr s) = (case parse s of None \<Rightarrow> Inl ValueError | Some x \<Rightarrow> Inr x)"
| "py_float parse (JList l) = Inl TypeError"
| "py_float parse (JDict d) = Inl TypeError"

text \<open>Truth value of an object, as \<^verbatim>\<open>or\<close> and \<^verbatim>\<open>not\<close> test it.\<close>

fun truthy :: "json \<Rightarrow> bool" where
  "truthy JNull = False"
| "truthy (JBool b) = b"
| "truthy (JInt n) = (n \<noteq> 0)"
| "truthy (JFloat x) = (\<not> is_zero x)"
| "truthy (JStr s) = (s \<noteq> [])"
| "truthy (JList l) = (l \<noteq> [])"
| "truthy (JDict d) = (d \<noteq> [])"

text \<open>\<^verbatim>\<open>a or b\<close>.\<close>

definition py_or :: "json \<Rightarrow> json \<Rightarrow> json" where
  "py_or a b = (if truthy a then a else b)"

text \<open>\<^verbatim>\<open>isinstance(v, str)\<close>.\<close>

fun isinstance_str :: "json \<Rightarrow> bool" where
  "isinstance_str (JStr s) = True"
| "isinstance_str _ = False"

text \<open>\<^verbatim>\<open>d.get(key, default)\<close>; \<^verbatim>\<open>d.get(key)\<close> has the default \<^verbatim>\<open>None\<close>.\<close>

definition dict_get :: "(pystr \<times> json) list \<Rightarrow> pystr \<Rightarrow> json \<Rightarrow> json" where
  "dict_get d key dflt = (case map_of d key of None \<Rightarrow> dflt | Some v \<Rightarrow> v)"

text \<open>
  The code points \<^verbatim>\<open>str.strip()\<close> removes: those Python counts as whitespace
  (\<^verbatim>\<open>str.isspace\<close>).
\<close>

definition is_space :: "nat \<Rightarrow> bool" where
  "is_space c = ((9 \<le> c \<and> c \<le> 13) \<or> (28 \<le> c \<and> c \<le> 32) \<or> c = 133 \<or> c = 160
     \<or> c = 5760 \<or> (8192 \<le> c \<and> c \<le> 8202) \<or> c = 8232 \<or> c = 8233 \<or> c = 8239
     \<or> c = 8287 \<or> c = 12288)"

definition strip :: "pystr \<Rightarrow> pystr" where
  "strip s = rev (dropWhile is_space (rev (dropWhile is_space s)))"

text \<open>\<^verbatim>\<open>v.strip()\<close> on an object: only a \<^verbatim>\<open>str\<close> has the method.\<close>

fun strip_method :: "json \<Rightarrow> error + pystr" where
  "strip_method (JStr s) = Inr (strip s)"
| "strip_method _ = Inl AttributeError"

text \<open>
  \<^verbatim>\<open>xs.sort(key=k, reverse=r)\<close>. The sort is stable and compares keys with \<^verbatim>\<open><\<close> only;
  with \<^verbatim>\<open>reverse=True\<close> the list is reversed before and after an ascending stable sort.
  Where \<^verbatim>\<open><\<close> orders the keys (no NaN among them) the result of a stable sort is
  unique, and insertion sort computes it. With a NaN among the keys the order CPython
  leaves depends on the comparisons its merge sort happens to make; on lists of at most
  two elements they are the ones made here.
\<close>

fun insert_key :: "('a \<Rightarrow> pyfloat) \<Rightarrow> 'a \<Rightarrow> 'a list \<Rightarrow> 'a list" where
  "insert_key k x [] = [x]"
| "insert_key k x (y # ys) =
     (if fl_lt (k y) (k x) then y # insert_key k x ys else x # y # ys)"

fun stable_sort :: "('a \<Rightarrow> pyfloat) \<Rightarrow> 'a list \<Rightarrow> 'a list" where
  "stable_sort k [] = []"
| "stable_sort k (x # xs) = insert_key k x (stable_sort k xs)"

definition list_sort :: "('a \<Rightarrow> pyfloat) \<Rightarrow> bool \<Rightarrow> 'a list \<Rightarrow> 'a list" where
  "list_sort k reverse xs =
     (if reverse then rev (stable_sort k (rev xs)) else stable_sort k xs)"

section \<open>Step 4 of \<open>main\<close>: the holdings list\<close>

text \<open>
  An entry is the dict \<^verbatim>\<open>{"name": ..., "weight": ...}\<close> with the keys \<^verbatim>\<open>"isin"\<close> and
  \<^verbatim>\<open>"ticker"\<close> added when their values are not empty; \<open>None\<close> is a key left out.
\<close>

record entry =
  name :: pystr
  weight :: pyfloat
  isin :: "pystr option"
  ticker :: "pystr option"

record result =
  holdings :: "entry list"
  cbondsId :: json
  totalCount :: int
  availableFields :: "pystr list"

text \<open>Lines 88 to 93.\<close>

definition isin_val :: "(pystr \<times> json) list \<Rightarrow> error + pystr" where
  "isin_val item =
     (if isinstance_str
           (dict_get item (ustr ''isin'')
              (dict_get item (ustr ''asset_isin'') (dict_get item (ustr ''emitent_isin'') JNull)))
      then strip_method
             (py_or (dict_get item (ustr ''isin'') (JStr []))
                (py_or (dict_get item (ustr ''asset_isin'') (JStr []))
                   (py_or (dict_get item (ustr ''emitent_isin'') (JStr [])) (JStr []))))
      else Inr [])"

text \<open>Lines 96 to 100.\<close>

definition ticker_val :: "(pystr \<times> json) list \<Rightarrow> error + pystr" where
  "ticker_val item =
     (if isinstance_str
           (dict_get item (ustr ''ticker'') (dict_get item (ustr ''asset_ticker'') JNull))
      then strip_method
             (py_or (dict_get item (ustr ''ticker'') (JStr []))
                (py_or (dict_get item (ustr ''asset_ticker'') (JStr [])) (JStr [])))
      else Inr [])"

text \<open>
  Lines 105 to 116: the \<^verbatim>\<open>except\<close> clauses catch \<^verbatim>\<open>ValueError\<close> and \<^verbatim>\<open>TypeError\<close>; any
  other exception leaves the loop.
\<close>

definition catch_weight :: "error + pyfloat \<Rightarrow> error + pyfloat" where
  "catch_weight r =
     (case r of
        Inl ValueError \<Rightarrow> Inr (Finite 0)
      | Inl TypeError \<Rightarrow> Inr (Finite 0)
      | Inl e \<Rightarrow> Inl e
      | Inr w \<Rightarrow> Inr w)"

definition item_weight ::
  "(pystr \<Rightarrow> pyfloat option) \<Rightarrow> json \<Rightarrow> json \<Rightarrow> error + pyfloat" where
  "item_weight parse weight_num weight_rounded =
     (if weight_num \<noteq> JNull then
        catch_weight
          (case py_float parse weight_num of
             Inl e \<Rightarrow> Inl e
           | Inr x \<Rightarrow> Inr (py_round (fl_mul x (Finite 100)) 2))
      else if weight_rounded \<noteq> JNull then catch_weight (py_float parse weight_rounded)
      else Inr (Finite 0))"

text \<open>
  The body of the loop, lines 82 to 123, for one \<open>item\<close>: an error, \<open>None\<close> for
  \<^verbatim>\<open>continue\<close>, or the entry appended. \<^verbatim>\<open>item.get\<close> exists on a dict only.
\<close>

fun process_item :: "(pystr \<Rightarrow> pyfloat option) \<Rightarrow> json \<Rightarrow> error + entry option" where
  "process_item parse (JDict item) =
     (case strip_method (dict_get item (ustr ''asset_name'') (JStr [])) of
        Inl e \<Rightarrow> Inl e
      | Inr nm \<Rightarrow>
          let weight_num = dict_get item (ustr ''weight.numeric'') JNull;
              weight_rounded = dict_get item (ustr ''weight.rounded'') JNull
          in case isin_val item of
               Inl e \<Rightarrow> Inl e
             | Inr iv \<Rightarrow>
                 (case ticker_val item of
                    Inl e \<Rightarrow> Inl e
                  | Inr tv \<Rightarrow>
                      if nm = [] then Inr None
                      else
                        (case item_weight parse weight_num weight_rounded of
                           Inl e \<Rightarrow> Inl e
                         | Inr w \<Rightarrow>
                             Inr (Some \<lparr>name = nm, weight = w,
                                        isin = (if iv = [] then None else Some iv),
                                        ticker = (if tv = [] then None else Some tv)\<rparr>))))"
| "process_item parse _ = Inl AttributeError"

text \<open>The loop of lines 80 to 123, with the list \<^verbatim>\<open>holdings\<close> built so far.\<close>

fun holdings_loop ::
  "(pystr \<Rightarrow> pyfloat option) \<Rightarrow> entry list \<Rightarrow> json list \<Rightarrow> error + entry list" where
  "holdings_loop parse hs [] = Inr hs"
| "holdings_loop parse hs (item # rest) =
     (case process_item parse item of
        Inl e \<Rightarrow> Inl e
      | Inr None \<Rightarrow> holdings_loop parse hs rest
      | Inr (Some en) \<Rightarrow> holdings_loop parse (hs @ [en]) rest)"

text \<open>Line 129: \<^verbatim>\<open>list(structure[0].keys()) if structure else []\<close>.\<close>

fun available_fields :: "json list \<Rightarrow> error + pystr list" where
  "available_fields [] = Inr []"
| "available_fields (JDict d # rest) = Inr (map fst d)"
| "available_fields (_ # rest) = Inl AttributeError"

text \<open>
  Lines 80 to 136: from the parsed \<open>structure\<close> (a list, by the pattern that found it)
  and the fund's id to the dict \<open>result\<close> that is printed.
  The step reads \<open>structure\<close> and \<open>cbonds_id\<close> and assigns local variables only: the
  list \<open>holdings\<close> is new at line 80, and nothing is kept from one run to the next.
\<close>

definition normalize_holdings ::
  "(pystr \<Rightarrow> pyfloat option) \<Rightarrow> json \<Rightarrow> json list \<Rightarrow> error + result" where
  "normalize_holdings parse cbonds_id structure =
     (case holdings_loop parse [] structure of
        Inl e \<Rightarrow> Inl e
      | Inr hs \<Rightarrow>
          (case available_fields structure of
             Inl e \<Rightarrow> Inl e
           | Inr names \<Rightarrow>
               Inr \<lparr>holdings = list_sort weight True hs,
                    cbondsId = cbonds_id,
                    totalCount = int (length (list_sort weight True hs)),
                    availableFields = names\<rparr>))"

section \<open>Notions the properties are stated with\<close>

text \<open>The entries in the order of their records: what each item of \<open>structure\<close> appends.\<close>

definition kept_entries :: "(pystr \<Rightarrow> pyfloat option) \<Rightarrow> json list \<Rightarrow> entry list" where
  "kept_entries parse structure =
     concat (map (\<lambda>item. case process_item parse item of
                              Inr (Some en) \<Rightarrow> [en]
                            | _ \<Rightarrow> []) structure)"

text \<open>
  A priority list of field names read as the specification words it: the value of the
  first field, in the order of the list, that holds a non-empty string; the empty string
  when there is none.
\<close>

fun spec_first_nonempty :: "(pystr \<times> json) list \<Rightarrow> pystr list \<Rightarrow> pystr" where
  "spec_first_nonempty item [] = []"
| "spec_first_nonempty item (key # ks) =
     (case map_of item key of
        Some (JStr s) \<Rightarrow> if s \<noteq> [] then s else spec_first_nonempty item ks
      | _ \<Rightarrow> spec_first_nonempty item ks)"

text \<open>A field that is absent from the record or holds a string.\<close>

definition str_or_absent :: "(pystr \<times> json) list \<Rightarrow> pystr \<Rightarrow> bool" where
  "str_or_absent item key = (case map_of item key of None \<Rightarrow> True | Some v \<Rightarrow> isinstance_str v)"

text \<open>
  A record whose name and optional fields are each absent or a string, and whose weight
  fields do not overflow a float.
\<close>

definition well_typed_record :: "(pystr \<Rightarrow> pyfloat option) \<Rightarrow> (pystr \<times> json) list \<Rightarrow> bool" where
  "well_typed_record parse item =
     (str_or_absent item (ustr ''asset_name'')
      \<and> str_or_absent item (ustr ''isin'') \<and> str_or_absent item (ustr ''asset_isin'')
      \<and> str_or_absent item (ustr ''emitent_isin'')
      \<and> str_or_absent item (ustr ''ticker'') \<and> str_or_absent item (ustr ''asset_ticker'')
      \<and> py_float parse (dict_get item (ustr ''weight.numeric'') JNull) \<noteq> Inl OverflowError
      \<and> py_float parse (dict_get item (ustr ''weight.rounded'') JNull) \<noteq> Inl OverflowError)"

section \<open>Binary64 rounding: what the definitions compute\<close>

text \<open>
  \<open>rint\<close> is within a half of its argument, \<open>ilog2\<close> is the exponent of the leading bit,
  and a finite \<open>round_double q\<close> is a multiple of the last place \<open>2 powi e\<close> with a
  significand of at most 53 bits, within half a last place of \<open>q\<close>, and below
  \<open>2 ^ 1024\<close>.
\<close>

lemma rint_nearest: "\<bar>of_int (rint q) - q\<bar> \<le> 1 / 2"
proof -
  have "of_int \<lfloor>q\<rfloor> \<le> q" "q < of_int \<lfloor>q\<rfloor> + 1" by linarith+
  then show ?thesis
    by (auto simp: rint_def Let_def)
qed

lemma rint_mono_int: "of_int n \<le> q \<Longrightarrow> n \<le> rint q"
proof -
  assume "of_int n \<le> q"
  then have "n \<le> \<lfloor>q\<rfloor>" by (simp add: le_floor_iff)
  moreover have "\<lfloor>q\<rfloor> \<le> rint q" by (auto simp: rint_def Let_def)
  ultimately show ?thesis by simp
qed

lemma rint_le_int: "q \<le> of_int n \<Longrightarrow> rint q \<le> n"
proof -
  assume a: "q \<le> of_int n"
  show ?thesis
  proof (cases "q = of_int n")
    case True
    then show ?thesis by (simp add: rint_def Let_def)
  next
    case False
    with a have "q < of_int n" by simp
    then have "\<lfloor>q\<rfloor> < n" by (simp add: floor_less_iff)
    moreover have "rint q \<le> \<lfloor>q\<rfloor> + 1" by (auto simp: rint_def Let_def)
    ultimately show ?thesis by simp
  qed
qed

lemma ilog2_bounds:
  assumes "0 < q"
  shows "2 powi (ilog2 q) \<le> q" and "q < 2 powi (ilog2 q + 1)"
proof -
  have "2 powi (ilog2 q) \<le> q \<and> q < 2 powi (ilog2 q + 1)"
  proof (cases "1 \<le> q")
    case True
    define x where "x = \<lfloor>q\<rfloor>"
    have x: "0 < x" using True by (simp add: x_def)
    then have b: "1 \<le> bitlen x" by (simp add: bitlen_alt_def)
    from bitlen_bounds[OF x] have lo: "2 ^ nat (bitlen x - 1) \<le> x" and hi: "x < 2 ^ nat (bitlen x)"
      by simp_all
    have i: "ilog2 q = bitlen x - 1" using True by (simp add: ilog2_def x_def)
    have "(2::rat) ^ nat (bitlen x - 1) = of_int (2 ^ nat (bitlen x - 1))" by simp
    also have "\<dots> \<le> of_int x" using lo by (simp only: of_int_le_iff)
    also have "\<dots> \<le> q" by (simp add: x_def)
    finally have 1: "(2::rat) ^ nat (bitlen x - 1) \<le> q" .
    have "x + 1 \<le> 2 ^ nat (bitlen x)" using hi by simp
    then have "of_int (x + 1) \<le> (of_int (2 ^ nat (bitlen x)) :: rat)" by (simp only: of_int_le_iff)
    moreover have "q < of_int (x + 1)" unfolding x_def by linarith
    ultimately have 2: "q < 2 ^ nat (bitlen x)" by simp
    from 1 2 b show ?thesis by (simp add: i power_int_def)
  next
    case False
    define r where "r = 1 / q"
    define x where "x = \<lceil>r\<rceil> - 1"
    have r: "1 < r" using False assms by (simp add: r_def)
    then have x: "0 < x" by (simp add: x_def less_ceiling_iff)
    then have b: "1 \<le> bitlen x" by (simp add: bitlen_alt_def)
    from bitlen_bounds[OF x] have lo: "2 ^ nat (bitlen x - 1) \<le> x" and hi: "x < 2 ^ nat (bitlen x)"
      by simp_all
    have i: "ilog2 q = - bitlen x" using False by (simp add: ilog2_def x_def r_def)
    have "x + 1 \<le> 2 ^ nat (bitlen x)" using hi by simp
    then have "of_int (x + 1) \<le> (of_int (2 ^ nat (bitlen x)) :: rat)" by (simp only: of_int_le_iff)
    moreover have "r \<le> of_int (x + 1)" by (simp add: x_def)
    ultimately have 1: "r \<le> 2 ^ nat (bitlen x)" by simp
    have "(2::rat) ^ nat (bitlen x - 1) = of_int (2 ^ nat (bitlen x - 1))" by simp
    also have "\<dots> \<le> of_int x" using lo by (simp only: of_int_le_iff)
    also have "\<dots> < r" unfolding x_def by linarith
    finally have 2: "(2::rat) ^ nat (bitlen x - 1) < r" .
    have q: "q = 1 / r" using assms by (simp add: r_def)
    have p1: "2 powi (- bitlen x) = 1 / (2::rat) ^ nat (bitlen x)"
      using b by (simp add: power_int_def field_simps)
    have p2: "2 powi (- bitlen x + 1) = 1 / (2::rat) ^ nat (bitlen x - 1)"
      using b by (simp add: power_int_def field_simps nat_diff_distrib)
    have "1 / (2::rat) ^ nat (bitlen x) \<le> 1 / r"
      using 1 r by (simp add: frac_le)
    moreover have "1 / r < 1 / (2::rat) ^ nat (bitlen x - 1)"
      using 2 by (simp add: frac_less2)
    ultimately have "2 powi (- bitlen x) \<le> q \<and> q < 2 powi (- bitlen x + 1)"
      unfolding p1 p2 by (simp only: q)
    then show ?thesis by (simp only: i)
  qed
  then show "2 powi (ilog2 q) \<le> q" and "q < 2 powi (ilog2 q + 1)" by simp_all
qed

lemma round_double_finite:
  assumes "round_double q = Finite v" and "q \<noteq> 0"
  shows "\<exists>m. v = of_int m * 2 powi (max (ilog2 \<bar>q\<bar> - 52) (- 1074)) \<and> \<bar>m\<bar> \<le> 2 ^ 53"
    and "\<bar>v - q\<bar> \<le> 2 powi (max (ilog2 \<bar>q\<bar> - 52) (- 1074)) / 2"
    and "\<bar>v\<bar> < 2 ^ 1024"
proof -
  define e where "e = max (ilog2 \<bar>q\<bar> - 52) (- 1074)"
  define a where "a = \<bar>q\<bar> / 2 powi e"
  define m where "m = rint a"
  have pe: "(0::rat) < 2 powi e" by simp
  have aq: "a * 2 powi e = \<bar>q\<bar>" using pe by (simp add: a_def)
  have a0: "0 < a" using assms(2) pe by (simp add: a_def)
  have m0: "0 \<le> m" unfolding m_def using a0 by (intro rint_mono_int) simp
  have "\<bar>q\<bar> < 2 powi (ilog2 \<bar>q\<bar> + 1)"
    using assms(2) by (intro ilog2_bounds) simp
  also have "\<dots> \<le> 2 powi (e + 53)"
    by (intro power_int_increasing) (simp_all add: e_def)
  also have "\<dots> = 2 ^ 53 * 2 powi e"
    by (simp add: power_int_add)
  finally have "a < 2 ^ 53" using pe by (simp add: a_def pos_divide_less_eq)
  then have "a \<le> of_int (2 ^ 53)" by simp
  then have m53: "m \<le> 2 ^ 53" unfolding m_def by (rule rint_le_int)
  have near: "\<bar>of_int m - a\<bar> \<le> 1 / 2" unfolding m_def by (rule rint_nearest)
  have "round_double q =
      (if (2::rat) ^ 1024 \<le> of_int m * 2 powi e then (if q < 0 then NegInf else PosInf)
       else if m = 0 then (if q < 0 then NegZero else Finite 0)
       else Finite (if q < 0 then - (of_int m * 2 powi e) else of_int m * 2 powi e))"
    unfolding m_def a_def e_def round_double_def Let_def using assms(2)
    by (simp only: if_False)
  with assms(1) have v: "v = (if q < 0 then - (of_int m * 2 powi e) else of_int m * 2 powi e)"
    and lt: "of_int m * 2 powi e < (2::rat) ^ 1024"
    by (simp_all only: pyfloat.inject pyfloat.distinct split: if_splits) (simp_all add: not_le)
  have "v = of_int (if q < 0 then - m else m) * 2 powi e" using v by simp
  moreover have "\<bar>if q < 0 then - m else m\<bar> \<le> 2 ^ 53" using m0 m53 by simp
  ultimately show "\<exists>m. v = of_int m * 2 powi (max (ilog2 \<bar>q\<bar> - 52) (- 1074)) \<and> \<bar>m\<bar> \<le> 2 ^ 53"
    unfolding e_def by blast
  have "\<bar>v - q\<bar> = \<bar>of_int m * 2 powi e - \<bar>q\<bar>\<bar>"
    using v by (auto simp: abs_if)
  also have "\<dots> = \<bar>of_int m - a\<bar> * 2 powi e"
    using pe by (simp add: aq[symmetric] left_diff_distrib[symmetric] abs_mult del: power_int_numeral)
  also have "\<dots> \<le> 1 / 2 * 2 powi e"
    using near pe by (intro mult_right_mono) simp_all
  finally show "\<bar>v - q\<bar> \<le> 2 powi (max (ilog2 \<bar>q\<bar> - 52) (- 1074)) / 2"
    by (simp add: e_def)
  have "\<bar>v\<bar> = of_int m * 2 powi e" using v m0 pe by (simp add: abs_mult)
  with lt show "\<bar>v\<bar> < 2 ^ 1024" by simp
qed

section \<open>Evaluation at concrete inputs\<close>

lemma floor_rat_numeral [simp]:
  "\<lfloor>numeral a / numeral b :: rat\<rfloor> = numeral a div numeral b"
  "\<lfloor>- (numeral a / numeral b) :: rat\<rfloor> = - numeral a div numeral b"
  "\<lfloor>1 / numeral b :: rat\<rfloor> = 1 div numeral b"
  "\<lfloor>- (1 / numeral b) :: rat\<rfloor> = - 1 div numeral b"
  using floor_divide_of_int_eq[of "numeral a" "numeral b", where ?'a = rat]
    floor_divide_of_int_eq[of "- numeral a" "numeral b", where ?'a = rat]
    floor_divide_of_int_eq[of "1" "numeral b", where ?'a = rat]
    floor_divide_of_int_eq[of "- 1" "numeral b", where ?'a = rat]
  by simp_all

lemma ceiling_rat_numeral [simp]:
  "\<lceil>numeral a / numeral b :: rat\<rceil> = - (- numeral a div numeral b)"
  "\<lceil>1 / numeral b :: rat\<rceil> = - (- 1 div numeral b)"
  unfolding ceiling_def by (simp_all flip: minus_divide_left)

lemma bitlen_numeral_simps:
  "bitlen (numeral n) = bitlen (numeral n div 2) + 1"
  "bitlen 1 = 1"
  by (subst compute_bitlen, simp)+

lemmas float_eval = round_double_def ilog2_def rint_def bitlen_numeral_simps Let_def
  py_round_def fl_mul_def is_zero_def

lemmas item_eval = normalize_holdings_def list_sort_def isin_val_def ticker_val_def
  dict_get_def ustr_def py_or_def strip_def is_space_def item_weight_def catch_weight_def

lemma strip_Nil [simp]: "strip [] = []"
  by (simp add: strip_def)

section \<open>The sort\<close>

lemma mset_insert_key: "mset (insert_key k x ys) = add_mset x (mset ys)"
  by (induction ys) auto

lemma mset_stable_sort: "mset (stable_sort k xs) = mset xs"
  by (induction xs) (auto simp: mset_insert_key)

lemma mset_list_sort: "mset (list_sort k reverse xs) = mset xs"
  by (simp add: list_sort_def mset_stable_sort)

lemma set_list_sort: "set (list_sort k reverse xs) = set xs"
  using mset_list_sort[of k reverse xs] by (metis set_mset_mset)

lemma length_list_sort: "length (list_sort k reverse xs) = length xs"
  using mset_list_sort[of k reverse xs] by (metis size_mset)

lemma fl_eq_not_lt: "fl_eq x w \<Longrightarrow> fl_eq y w \<Longrightarrow> \<not> fl_lt y x"
  by (auto simp: fl_eq_def fl_lt_def)

lemma filter_insert_key:
  "filter (\<lambda>a. fl_eq (k a) w) (insert_key k x ys) =
     (if fl_eq (k x) w then x # filter (\<lambda>a. fl_eq (k a) w) ys
      else filter (\<lambda>a. fl_eq (k a) w) ys)"
  by (induction ys) (auto dest: fl_eq_not_lt)

lemma filter_stable_sort:
  "filter (\<lambda>a. fl_eq (k a) w) (stable_sort k xs) = filter (\<lambda>a. fl_eq (k a) w) xs"
  by (induction xs) (auto simp: filter_insert_key)

lemma filter_list_sort:
  "filter (\<lambda>a. fl_eq (k a) w) (list_sort k reverse xs) = filter (\<lambda>a. fl_eq (k a) w) xs"
  by (simp add: list_sort_def filter_stable_sort rev_filter[symmetric])

lemma fl_total: "\<not> is_nan x \<Longrightarrow> \<not> is_nan y \<Longrightarrow> \<not> fl_lt y x \<Longrightarrow> fl_ge y x"
  by (cases x; cases y) (auto simp: fl_ge_def fl_lt_def fl_eq_def)

lemma fl_ge_trans: "fl_ge z y \<Longrightarrow> fl_ge y x \<Longrightarrow> fl_ge z x"
  by (auto simp: fl_ge_def fl_lt_def fl_eq_def)

lemma fl_lt_ge: "fl_lt y x \<Longrightarrow> fl_ge x y"
  by (simp add: fl_ge_def)

lemma set_insert_key: "set (insert_key k x ys) = insert x (set ys)"
  using mset_insert_key[of k x ys] by (metis set_mset_add_mset_insert set_mset_mset)

lemma sorted_insert_key:
  assumes "sorted_wrt (\<lambda>a b. fl_ge (k b) (k a)) ys"
    and "\<not> is_nan (k x)" and "\<forall>y \<in> set ys. \<not> is_nan (k y)"
  shows "sorted_wrt (\<lambda>a b. fl_ge (k b) (k a)) (insert_key k x ys)"
  using assms
proof (induction ys)
  case Nil
  then show ?case by simp
next
  case (Cons y ys)
  show ?case
  proof (cases "fl_lt (k y) (k x)")
    case True
    have "sorted_wrt (\<lambda>a b. fl_ge (k b) (k a)) (insert_key k x ys)"
      using Cons by simp
    moreover have "\<forall>z \<in> set (insert_key k x ys). fl_ge (k z) (k y)"
      using Cons.prems True by (auto simp: set_insert_key fl_lt_ge)
    ultimately show ?thesis using True by simp
  next
    case False
    then have xy: "fl_ge (k y) (k x)" using Cons.prems by (simp add: fl_total)
    have "\<forall>z \<in> set ys. fl_ge (k z) (k x)"
      using Cons.prems xy by (auto intro: fl_ge_trans)
    then show ?thesis using False xy Cons.prems by simp
  qed
qed

lemma sorted_stable_sort:
  "\<forall>x \<in> set xs. \<not> is_nan (k x) \<Longrightarrow> sorted_wrt (\<lambda>a b. fl_ge (k b) (k a)) (stable_sort k xs)"
proof (induction xs)
  case Nil
  then show ?case by simp
next
  case (Cons x xs)
  have "\<forall>y \<in> set (stable_sort k xs). \<not> is_nan (k y)"
    using Cons.prems mset_stable_sort[of k xs] by (metis list.set_intros(2) set_mset_mset)
  with Cons show ?case by (simp add: sorted_insert_key)
qed

lemma sorted_list_sort_reverse:
  "\<forall>x \<in> set xs. \<not> is_nan (k x) \<Longrightarrow> sorted_wrt (\<lambda>a b. fl_ge (k a) (k b)) (list_sort k True xs)"
  by (simp add: list_sort_def sorted_wrt_rev sorted_stable_sort)

section \<open>The loop and the report\<close>

text \<open>
  The loop leaves the entries of the records in their order; a report holds them sorted,
  counts them, and every one has a name.
\<close>

lemma holdings_loop_kept:
  "holdings_loop parse hs items = Inr out \<Longrightarrow> out = hs @ kept_entries parse items"
proof (induction items arbitrary: hs)
  case Nil
  then show ?case by (simp add: kept_entries_def)
next
  case (Cons item rest)
  show ?case
  proof (cases "process_item parse item")
    case (Inl e)
    with Cons.prems show ?thesis by simp
  next
    case (Inr r)
    show ?thesis
    proof (cases r)
      case None
      with Inr Cons.prems have "holdings_loop parse hs rest = Inr out" by simp
      from Cons.IH[OF this] Inr None show ?thesis by (simp add: kept_entries_def)
    next
      case (Some en)
      with Inr Cons.prems have "holdings_loop parse (hs @ [en]) rest = Inr out" by simp
      from Cons.IH[OF this] Inr Some show ?thesis by (simp add: kept_entries_def)
    qed
  qed
qed

lemma process_item_name:
  "process_item parse item = Inr (Some en) \<Longrightarrow> name en \<noteq> []"
  by (cases item) (auto simp: Let_def split: sum.splits if_splits)

lemma kept_entries_name: "en \<in> set (kept_entries parse structure) \<Longrightarrow> name en \<noteq> []"
  by (auto simp: kept_entries_def split: sum.splits option.splits dest: process_item_name[OF sym])

lemma normalize_holdings_Inr:
  assumes "normalize_holdings parse cid structure = Inr r"
  shows "holdings r = list_sort weight True (kept_entries parse structure)"
    and "totalCount r = int (length (kept_entries parse structure))"
    and "cbondsId r = cid"
    and "available_fields structure = Inr (availableFields r)"
proof -
  from assms obtain hs names where hs: "holdings_loop parse [] structure = Inr hs"
    and af: "available_fields structure = Inr names"
    and r: "r = \<lparr>holdings = list_sort weight True hs, cbondsId = cid,
      totalCount = int (length (list_sort weight True hs)), availableFields = names\<rparr>"
    by (auto simp: normalize_holdings_def split: sum.splits)
  from holdings_loop_kept[OF hs] have "hs = kept_entries parse structure" by simp
  with r af show "holdings r = list_sort weight True (kept_entries parse structure)"
    and "totalCount r = int (length (kept_entries parse structure))"
    and "cbondsId r = cid"
    and "available_fields structure = Inr (availableFields r)"
    by (simp_all add: length_list_sort)
qed

lemma holdings_names_nonempty:
  assumes "normalize_holdings parse cid items = Inr r"
  shows "\<forall>en \<in> set (holdings r). name en \<noteq> []"
  using normalize_holdings_Inr(1)[OF assms] by (simp add: set_list_sort kept_entries_name)

lemma nameless_record_skipped:
  assumes "process_item parse (JDict item) = Inr r"
    and "strip_method (dict_get item (ustr ''asset_name'') (JStr [])) = Inr []"
  shows "r = None"
  using assms by (auto simp: Let_def split: sum.splits if_splits)

section \<open>Records that are well typed\<close>

text \<open>
  On fields that are absent or strings the two selections of lines 88 to 100 agree with
  the priority list, and a sequence of well typed records always gives a report.
\<close>

lemma str_or_absent_cases:
  "str_or_absent item key \<longleftrightarrow> map_of item key = None \<or> (\<exists>s. map_of item key = Some (JStr s))"
  by (cases "map_of item key"; cases "the (map_of item key)") (auto simp: str_or_absent_def)

lemma isin_val_spec:
  assumes "str_or_absent item (ustr ''isin'')" "str_or_absent item (ustr ''asset_isin'')"
    "str_or_absent item (ustr ''emitent_isin'')"
  shows "isin_val item =
     Inr (strip (spec_first_nonempty item [ustr ''isin'', ustr ''asset_isin'', ustr ''emitent_isin'']))"
  using assms unfolding str_or_absent_cases
  by (auto simp: isin_val_def dict_get_def py_or_def)

lemma ticker_val_spec:
  assumes "str_or_absent item (ustr ''ticker'')" "str_or_absent item (ustr ''asset_ticker'')"
  shows "ticker_val item =
     Inr (strip (spec_first_nonempty item [ustr ''ticker'', ustr ''asset_ticker'']))"
  using assms unfolding str_or_absent_cases
  by (auto simp: ticker_val_def dict_get_def py_or_def)

lemma py_float_errors:
  "py_float parse v = Inl e \<Longrightarrow> e = TypeError \<or> e = ValueError \<or> e = OverflowError"
  by (cases v) (auto split: if_splits option.splits)

lemma item_weight_completes:
  assumes "py_float parse wn \<noteq> Inl OverflowError" and "py_float parse wr \<noteq> Inl OverflowError"
  shows "\<exists>w. item_weight parse wn wr = Inr w"
proof -
  have c: "\<exists>w. catch_weight r = Inr w" if "r \<noteq> Inl OverflowError" "r \<noteq> Inl AttributeError"
    for r
    using that by (cases r) (auto simp: catch_weight_def split: error.splits)
  have n: "py_float parse v \<noteq> Inl AttributeError" for v
    using py_float_errors[of parse v AttributeError] by auto
  show ?thesis
  proof (cases "py_float parse wn")
    case (Inl e)
    with assms n[of wn] c[of "py_float parse wr"] n[of wr] show ?thesis
      by (cases e) (auto simp: item_weight_def catch_weight_def)
  next
    case (Inr x)
    with assms c[of "py_float parse wr"] n[of wr] show ?thesis
      by (auto simp: item_weight_def catch_weight_def)
  qed
qed

lemma process_item_completes:
  assumes "well_typed_record parse item"
  shows "\<exists>r. process_item parse (JDict item) = Inr r"
proof -
  from assms have nm: "str_or_absent item (ustr ''asset_name'')"
    and i: "str_or_absent item (ustr ''isin'')" "str_or_absent item (ustr ''asset_isin'')"
      "str_or_absent item (ustr ''emitent_isin'')"
    and t: "str_or_absent item (ustr ''ticker'')" "str_or_absent item (ustr ''asset_ticker'')"
    and w: "py_float parse (dict_get item (ustr ''weight.numeric'') JNull) \<noteq> Inl OverflowError"
      "py_float parse (dict_get item (ustr ''weight.rounded'') JNull) \<noteq> Inl OverflowError"
    by (simp_all add: well_typed_record_def)
  from nm obtain s where s: "strip_method (dict_get item (ustr ''asset_name'') (JStr [])) = Inr s"
    unfolding str_or_absent_cases by (auto simp: dict_get_def)
  from item_weight_completes[OF w] obtain x where
    x: "item_weight parse (dict_get item (ustr ''weight.numeric'') JNull)
          (dict_get item (ustr ''weight.rounded'') JNull) = Inr x" ..
  show ?thesis
    by (simp add: s x isin_val_spec[OF i] ticker_val_spec[OF t])
qed

lemma holdings_loop_completes:
  "\<forall>it \<in> set items. \<exists>r. process_item parse it = Inr r \<Longrightarrow>
     \<exists>out. holdings_loop parse hs items = Inr out"
proof (induction items arbitrary: hs)
  case Nil
  then show ?case by simp
next
  case (Cons it items)
  then obtain r where "process_item parse it = Inr r" by auto
  with Cons show ?case by (cases r) auto
qed

lemma normalize_holdings_completes:
  assumes "\<forall>it \<in> set items. \<exists>item. it = JDict item \<and> well_typed_record parse item"
  shows "\<exists>r. normalize_holdings parse cid items = Inr r"
proof -
  have "\<forall>it \<in> set items. \<exists>r. process_item parse it = Inr r"
  proof
    fix it
    assume "it \<in> set items"
    with assms obtain item where "it = JDict item" and "well_typed_record parse item"
      by blast
    then show "\<exists>r. process_item parse it = Inr r"
      using process_item_completes[of parse item] by simp
  qed
  from holdings_loop_completes[OF this] obtain out where
    "holdings_loop parse [] items = Inr out" ..
  moreover have "\<exists>names. available_fields items = Inr names"
    using assms by (cases items) auto
  ultimately show ?thesis by (auto simp: normalize_holdings_def)
qed

section \<open>Malformed records\<close>

text \<open>
  Claim C1 does not hold of the code. The test of line 93 looks at the first field that
  is present, the value stripped is the first that is true: an empty \<^verbatim>\<open>isin\<close> before a
  number in \<^verbatim>\<open>asset_isin\<close> raises \<^verbatim>\<open>AttributeError\<close>. So does a name that is not a
  string, and an integer too large for a float raises \<^verbatim>\<open>OverflowError\<close>, which line 108
  does not catch.
\<close>

theorem malformed_record_aborts:
  "normalize_holdings parse cbonds_id
     [JDict [(ustr ''asset_name'', JStr (ustr ''A'')), (ustr ''isin'', JStr []),
             (ustr ''asset_isin'', JInt 5)]]
     = Inl AttributeError
   \<and> normalize_holdings parse cbonds_id [JDict [(ustr ''asset_name'', JNull)]] = Inl AttributeError
   \<and> normalize_holdings parse cbonds_id
       [JDict [(ustr ''asset_name'', JStr (ustr ''A'')), (ustr ''weight.numeric'', JInt (10 ^ 400))]]
     = Inl OverflowError"
  by (simp add: item_eval float_eval)

text \<open>
  Claim C6 does not hold of the code: lines 88 to 100 run before the name is tested at
  line 102, so a record with an empty name and the fields of the previous theorem is not
  skipped. It raises \<^verbatim>\<open>AttributeError\<close>.
\<close>

theorem nameless_record_aborts:
  "normalize_holdings parse cbonds_id
     [JDict [(ustr ''asset_name'', JStr []), (ustr ''isin'', JStr []), (ustr ''asset_isin'', JInt 5)]]
     = Inl AttributeError"
  by (simp add: item_eval)

section \<open>Optional fields\<close>

text \<open>
  Claim C2, as amended. For a record whose fields \<^verbatim>\<open>isin\<close>, \<^verbatim>\<open>asset_isin\<close> and
  \<^verbatim>\<open>emitent_isin\<close> are each absent or a string: the value taken for \<^verbatim>\<open>isin\<close> is the first
  non-empty string among them in that order, then trimmed, and the entry has no
  \<^verbatim>\<open>isin\<close> when the trimmed value is empty. Likewise \<^verbatim>\<open>ticker\<close> from \<^verbatim>\<open>ticker\<close> and
  \<^verbatim>\<open>asset_ticker\<close>, when these are each absent or a string.
\<close>

theorem isin_ticker_priority:
  "(str_or_absent item (ustr ''isin'') \<and> str_or_absent item (ustr ''asset_isin'')
      \<and> str_or_absent item (ustr ''emitent_isin'') \<longrightarrow>
      isin_val item =
        Inr (strip (spec_first_nonempty item [ustr ''isin'', ustr ''asset_isin'', ustr ''emitent_isin'']))
      \<and> (\<forall>en. process_item parse (JDict item) = Inr (Some en) \<longrightarrow>
            isin en =
              (if strip (spec_first_nonempty item
                           [ustr ''isin'', ustr ''asset_isin'', ustr ''emitent_isin'']) = []
               then None
               else Some (strip (spec_first_nonempty item
                                   [ustr ''isin'', ustr ''asset_isin'', ustr ''emitent_isin'']))))) \<and>
   (str_or_absent item (ustr ''ticker'') \<and> str_or_absent item (ustr ''asset_ticker'') \<longrightarrow>
      ticker_val item =
        Inr (strip (spec_first_nonempty item [ustr ''ticker'', ustr ''asset_ticker'']))
      \<and> (\<forall>en. process_item parse (JDict item) = Inr (Some en) \<longrightarrow>
            ticker en =
              (if strip (spec_first_nonempty item [ustr ''ticker'', ustr ''asset_ticker'']) = []
               then None
               else Some (strip (spec_first_nonempty item [ustr ''ticker'', ustr ''asset_ticker''])))))"
proof (intro conjI impI allI)
  assume a: "str_or_absent item (ustr ''isin'') \<and> str_or_absent item (ustr ''asset_isin'')
      \<and> str_or_absent item (ustr ''emitent_isin'')"
  then show i: "isin_val item =
        Inr (strip (spec_first_nonempty item [ustr ''isin'', ustr ''asset_isin'', ustr ''emitent_isin'']))"
    by (intro isin_val_spec) simp_all
  fix en
  assume "process_item parse (JDict item) = Inr (Some en)"
  then show "isin en =
      (if strip (spec_first_nonempty item [ustr ''isin'', ustr ''asset_isin'', ustr ''emitent_isin'']) = []
       then None
       else Some (strip (spec_first_nonempty item
                           [ustr ''isin'', ustr ''asset_isin'', ustr ''emitent_isin''])))"
    using i by (auto simp: Let_def split: sum.splits if_splits)
next
  assume a: "str_or_absent item (ustr ''ticker'') \<and> str_or_absent item (ustr ''asset_ticker'')"
  then show t: "ticker_val item =
        Inr (strip (spec_first_nonempty item [ustr ''ticker'', ustr ''asset_ticker'']))"
    by (intro ticker_val_spec) simp_all
  fix en
  assume "process_item parse (JDict item) = Inr (Some en)"
  then show "ticker en =
      (if strip (spec_first_nonempty item [ustr ''ticker'', ustr ''asset_ticker'']) = []
       then None
       else Some (strip (spec_first_nonempty item [ustr ''ticker'', ustr ''asset_ticker''])))"
    using t by (auto simp: Let_def split: sum.splits if_splits)
qed

text \<open>An empty \<^verbatim>\<open>isin\<close>, so \<^verbatim>\<open>asset_isin\<close> is taken and trimmed.\<close>

theorem isin_ticker_priority_witness:
  "str_or_absent [(ustr ''asset_name'', JStr (ustr ''A'')), (ustr ''isin'', JStr []),
       (ustr ''asset_isin'', JStr (ustr '' US0378331005 '')), (ustr ''asset_ticker'', JStr (ustr ''AAPL''))]
     (ustr ''isin'')
   \<and> str_or_absent [(ustr ''asset_name'', JStr (ustr ''A'')), (ustr ''isin'', JStr []),
       (ustr ''asset_isin'', JStr (ustr '' US0378331005 '')), (ustr ''asset_ticker'', JStr (ustr ''AAPL''))]
     (ustr ''asset_isin'')
   \<and> str_or_absent [(ustr ''asset_name'', JStr (ustr ''A'')), (ustr ''isin'', JStr []),
       (ustr ''asset_isin'', JStr (ustr '' US0378331005 '')), (ustr ''asset_ticker'', JStr (ustr ''AAPL''))]
     (ustr ''emitent_isin'')
   \<and> str_or_absent [(ustr ''asset_name'', JStr (ustr ''A'')), (ustr ''isin'', JStr []),
       (ustr ''asset_isin'', JStr (ustr '' US0378331005 '')), (ustr ''asset_ticker'', JStr (ustr ''AAPL''))]
     (ustr ''ticker'')
   \<and> str_or_absent [(ustr ''asset_name'', JStr (ustr ''A'')), (ustr ''isin'', JStr []),
       (ustr ''asset_isin'', JStr (ustr '' US0378331005 '')), (ustr ''asset_ticker'', JStr (ustr ''AAPL''))]
     (ustr ''asset_ticker'')
   \<and> process_item (\<lambda>s. None)
       (JDict [(ustr ''asset_name'', JStr (ustr ''A'')), (ustr ''isin'', JStr []),
         (ustr ''asset_isin'', JStr (ustr '' US0378331005 '')), (ustr ''asset_ticker'', JStr (ustr ''AAPL''))])
     = Inr (Some \<lparr>name = ustr ''A'', weight = Finite 0,
                   isin = Some (ustr ''US0378331005''), ticker = Some (ustr ''AAPL'')\<rparr>)
   \<and> strip (spec_first_nonempty
        [(ustr ''asset_name'', JStr (ustr ''A'')), (ustr ''isin'', JStr []),
         (ustr ''asset_isin'', JStr (ustr '' US0378331005 '')), (ustr ''asset_ticker'', JStr (ustr ''AAPL''))]
        [ustr ''isin'', ustr ''asset_isin'', ustr ''emitent_isin'']) = ustr ''US0378331005''
   \<and> isin_val [(ustr ''asset_name'', JStr (ustr ''A'')), (ustr ''isin'', JStr []),
         (ustr ''asset_isin'', JStr (ustr '' US0378331005 '')), (ustr ''asset_ticker'', JStr (ustr ''AAPL''))]
       = Inr (ustr ''US0378331005'')"
proof -
  let ?item = "[(ustr ''asset_name'', JStr (ustr ''A'')), (ustr ''isin'', JStr []),
       (ustr ''asset_isin'', JStr (ustr '' US0378331005 '')), (ustr ''asset_ticker'', JStr (ustr ''AAPL''))]"
  have a: "str_or_absent ?item (ustr ''isin'')" "str_or_absent ?item (ustr ''asset_isin'')"
    "str_or_absent ?item (ustr ''emitent_isin'')" "str_or_absent ?item (ustr ''ticker'')"
    "str_or_absent ?item (ustr ''asset_ticker'')"
    by (simp_all add: str_or_absent_def ustr_def)
  have p: "process_item (\<lambda>s. None) (JDict ?item)
     = Inr (Some \<lparr>name = ustr ''A'', weight = Finite 0,
                   isin = Some (ustr ''US0378331005''), ticker = Some (ustr ''AAPL'')\<rparr>)"
    by (simp add: item_eval)
  have s: "strip (spec_first_nonempty ?item [ustr ''isin'', ustr ''asset_isin'', ustr ''emitent_isin''])
     = ustr ''US0378331005''"
    by (simp add: item_eval)
  from isin_ticker_priority[of ?item "\<lambda>s. None"] a have
    "isin_val ?item = Inr (strip (spec_first_nonempty ?item [ustr ''isin'', ustr ''asset_isin'', ustr ''emitent_isin'']))"
    by blast
  with s have "isin_val ?item = Inr (ustr ''US0378331005'')" by simp
  with a p s show ?thesis by blast
qed

text \<open>
  Claim C2 as stated fails: a first field of blanks only is the one taken, and trimmed to
  the empty string, so the entry has no \<^verbatim>\<open>isin\<close> although \<^verbatim>\<open>asset_isin\<close> is a non-empty
  string after trimming.
\<close>

theorem isin_whitespace_counterexample:
  "process_item (\<lambda>s. None)
       (JDict [(ustr ''asset_name'', JStr (ustr ''A'')), (ustr ''isin'', JStr (ustr ''  '')),
         (ustr ''asset_isin'', JStr (ustr ''US0378331005''))])
     = Inr (Some \<lparr>name = ustr ''A'', weight = Finite 0, isin = None, ticker = None\<rparr>)
   \<and> strip (ustr ''  '') = []
   \<and> strip (ustr ''US0378331005'') = ustr ''US0378331005''
   \<and> ustr ''US0378331005'' \<noteq> []"
  by (simp add: item_eval)

section \<open>Weights\<close>

text \<open>
  Claim C5. For a record whose \<^verbatim>\<open>weight.numeric\<close> is present and converts to a float \<open>x\<close>,
  the weight of its entry is \<^verbatim>\<open>round(x * 100, 2)\<close>.
\<close>

theorem weight_numeric_scaled:
  assumes "map_of item (ustr ''weight.numeric'') = Some v"
    and "py_float parse v = Inr x"
  shows "item_weight parse (dict_get item (ustr ''weight.numeric'') JNull)
           (dict_get item (ustr ''weight.rounded'') JNull)
         = Inr (py_round (fl_mul x (Finite 100)) 2)
       \<and> (\<forall>en. process_item parse (JDict item) = Inr (Some en) \<longrightarrow>
             weight en = py_round (fl_mul x (Finite 100)) 2)"
proof -
  from assms(2) have "v \<noteq> JNull" by auto
  with assms have w: "item_weight parse (dict_get item (ustr ''weight.numeric'') JNull)
           (dict_get item (ustr ''weight.rounded'') JNull)
         = Inr (py_round (fl_mul x (Finite 100)) 2)"
    by (simp add: dict_get_def item_weight_def catch_weight_def)
  have "weight en = py_round (fl_mul x (Finite 100)) 2"
    if "process_item parse (JDict item) = Inr (Some en)" for en
    using that w by (auto simp: Let_def split: sum.splits if_splits)
  with w show ?thesis by blast
qed

text \<open>The fractional weight 0.045573 gives the weight 4.56.\<close>

theorem weight_numeric_scaled_witness:
  "map_of [(ustr ''asset_name'', JStr (ustr ''A'')),
           (ustr ''weight.numeric'', JFloat (round_double (45573 / 1000000)))]
      (ustr ''weight.numeric'') = Some (JFloat (round_double (45573 / 1000000)))
   \<and> py_float (\<lambda>s. None) (JFloat (round_double (45573 / 1000000))) = Inr (round_double (45573 / 1000000))
   \<and> process_item (\<lambda>s. None)
        (JDict [(ustr ''asset_name'', JStr (ustr ''A'')),
                (ustr ''weight.numeric'', JFloat (round_double (45573 / 1000000)))])
      = Inr (Some \<lparr>name = ustr ''A'', weight = round_double (456 / 100), isin = None, ticker = None\<rparr>)
   \<and> py_round (fl_mul (round_double (45573 / 1000000)) (Finite 100)) 2 = round_double (456 / 100)"
proof -
  let ?item = "[(ustr ''asset_name'', JStr (ustr ''A'')),
           (ustr ''weight.numeric'', JFloat (round_double (45573 / 1000000)))]"
  have a: "map_of ?item (ustr ''weight.numeric'') = Some (JFloat (round_double (45573 / 1000000)))"
    by (simp add: ustr_def)
  have b: "py_float (\<lambda>s. None) (JFloat (round_double (45573 / 1000000))) = Inr (round_double (45573 / 1000000))"
    by simp
  have c: "process_item (\<lambda>s. None) (JDict ?item)
      = Inr (Some \<lparr>name = ustr ''A'', weight = round_double (456 / 100), isin = None, ticker = None\<rparr>)"
    by (simp add: item_eval float_eval)
  from weight_numeric_scaled[OF a b] have
    "weight \<lparr>name = ustr ''A'', weight = round_double (456 / 100), isin = None, ticker = None\<rparr>
       = py_round (fl_mul (round_double (45573 / 1000000)) (Finite 100)) 2"
    using c by blast
  with a b c show ?thesis by simp
qed

text \<open>
  Claim C3, as amended. For the entry of a record: when \<^verbatim>\<open>weight.numeric\<close> is absent or
  null and \<^verbatim>\<open>weight.rounded\<close> converts to a float, the weight is that float, unrounded;
  when \<^verbatim>\<open>weight.numeric\<close> is present, not null and does not convert, the weight is 0.0
  whatever \<^verbatim>\<open>weight.rounded\<close> holds; when \<^verbatim>\<open>weight.numeric\<close> is absent or null and
  \<^verbatim>\<open>weight.rounded\<close> is absent, null or does not convert, the weight is 0.0.
\<close>

theorem weight_priority_order:
  assumes "process_item parse (JDict item) = Inr (Some en)"
  shows "(dict_get item (ustr ''weight.numeric'') JNull = JNull
            \<and> py_float parse (dict_get item (ustr ''weight.rounded'') JNull) = Inr x
          \<longrightarrow> weight en = x)
       \<and> (dict_get item (ustr ''weight.numeric'') JNull \<noteq> JNull
            \<and> (\<forall>y. py_float parse (dict_get item (ustr ''weight.numeric'') JNull) \<noteq> Inr y)
          \<longrightarrow> weight en = Finite 0)
       \<and> (dict_get item (ustr ''weight.numeric'') JNull = JNull
            \<and> (\<forall>y. py_float parse (dict_get item (ustr ''weight.rounded'') JNull) \<noteq> Inr y)
          \<longrightarrow> weight en = Finite 0)"
  using assms
  by (auto simp: Let_def item_weight_def catch_weight_def
      split: sum.splits if_splits error.splits)

text \<open>
  Three records: only \<^verbatim>\<open>weight.rounded\<close> = 4.5625 is present, and it is the weight with
  its four decimals; \<^verbatim>\<open>weight.numeric\<close> is a dict, and the weight is 0.0 beside a
  \<^verbatim>\<open>weight.rounded\<close> of 5.0; \<^verbatim>\<open>weight.numeric\<close> is null and \<^verbatim>\<open>weight.rounded\<close> a list,
  and the weight is 0.0.
\<close>

theorem weight_priority_order_witness:
  "process_item (\<lambda>s. None)
      (JDict [(ustr ''asset_name'', JStr (ustr ''A'')), (ustr ''weight.rounded'', JFloat (Finite (73 / 16)))])
     = Inr (Some \<lparr>name = ustr ''A'', weight = Finite (73 / 16), isin = None, ticker = None\<rparr>)
   \<and> dict_get [(ustr ''asset_name'', JStr (ustr ''A'')), (ustr ''weight.rounded'', JFloat (Finite (73 / 16)))]
        (ustr ''weight.numeric'') JNull = JNull
   \<and> py_float (\<lambda>s. None)
        (dict_get [(ustr ''asset_name'', JStr (ustr ''A'')), (ustr ''weight.rounded'', JFloat (Finite (73 / 16)))]
          (ustr ''weight.rounded'') JNull) = Inr (Finite (73 / 16))
   \<and> weight \<lparr>name = ustr ''A'', weight = Finite (73 / 16), isin = None, ticker = None\<rparr> = Finite (73 / 16)
   \<and> process_item (\<lambda>s. None)
      (JDict [(ustr ''asset_name'', JStr (ustr ''B'')), (ustr ''weight.numeric'', JDict []),
              (ustr ''weight.rounded'', JFloat (Finite 5))])
     = Inr (Some \<lparr>name = ustr ''B'', weight = Finite 0, isin = None, ticker = None\<rparr>)
   \<and> py_float (\<lambda>s. None)
        (dict_get [(ustr ''asset_name'', JStr (ustr ''B'')), (ustr ''weight.numeric'', JDict []),
              (ustr ''weight.rounded'', JFloat (Finite 5))] (ustr ''weight.numeric'') JNull) = Inl TypeError
   \<and> weight \<lparr>name = ustr ''B'', weight = Finite 0, isin = None, ticker = None\<rparr> = Finite 0
   \<and> process_item (\<lambda>s. None)
      (JDict [(ustr ''asset_name'', JStr (ustr ''C'')), (ustr ''weight.numeric'', JNull),
              (ustr ''weight.rounded'', JList [])])
     = Inr (Some \<lparr>name = ustr ''C'', weight = Finite 0, isin = None, ticker = None\<rparr>)
   \<and> py_float (\<lambda>s. None)
        (dict_get [(ustr ''asset_name'', JStr (ustr ''C'')), (ustr ''weight.numeric'', JNull),
              (ustr ''weight.rounded'', JList [])] (ustr ''weight.rounded'') JNull) = Inl TypeError
   \<and> weight \<lparr>name = ustr ''C'', weight = Finite 0, isin = None, ticker = None\<rparr> = Finite 0"
proof -
  let ?a = "[(ustr ''asset_name'', JStr (ustr ''A'')), (ustr ''weight.rounded'', JFloat (Finite (73 / 16)))]"
  let ?b = "[(ustr ''asset_name'', JStr (ustr ''B'')), (ustr ''weight.numeric'', JDict []),
              (ustr ''weight.rounded'', JFloat (Finite 5))]"
  let ?c = "[(ustr ''asset_name'', JStr (ustr ''C'')), (ustr ''weight.numeric'', JNull),
              (ustr ''weight.rounded'', JList [])]"
  have a: "process_item (\<lambda>s. None) (JDict ?a)
     = Inr (Some \<lparr>name = ustr ''A'', weight = Finite (73 / 16), isin = None, ticker = None\<rparr>)"
    by (simp add: item_eval)
  have a1: "dict_get ?a (ustr ''weight.numeric'') JNull = JNull"
    by (simp add: dict_get_def ustr_def)
  have a2: "py_float (\<lambda>s. None) (dict_get ?a (ustr ''weight.rounded'') JNull) = Inr (Finite (73 / 16))"
    by (simp add: dict_get_def ustr_def)
  have b: "process_item (\<lambda>s. None) (JDict ?b)
     = Inr (Some \<lparr>name = ustr ''B'', weight = Finite 0, isin = None, ticker = None\<rparr>)"
    by (simp add: item_eval)
  have b1: "py_float (\<lambda>s. None) (dict_get ?b (ustr ''weight.numeric'') JNull) = Inl TypeError"
    by (simp add: dict_get_def ustr_def)
  have b2: "dict_get ?b (ustr ''weight.numeric'') JNull \<noteq> JNull"
    by (simp add: dict_get_def ustr_def)
  have c: "process_item (\<lambda>s. None) (JDict ?c)
     = Inr (Some \<lparr>name = ustr ''C'', weight = Finite 0, isin = None, ticker = None\<rparr>)"
    by (simp add: item_eval)
  have c1: "py_float (\<lambda>s. None) (dict_get ?c (ustr ''weight.rounded'') JNull) = Inl TypeError"
    by (simp add: dict_get_def ustr_def)
  have c2: "dict_get ?c (ustr ''weight.numeric'') JNull = JNull"
    by (simp add: dict_get_def ustr_def)
  have wa: "weight \<lparr>name = ustr ''A'', weight = Finite (73 / 16), isin = None, ticker = None\<rparr>
              = Finite (73 / 16)"
    using weight_priority_order[OF a, of "Finite (73 / 16)"] a1 a2 by blast
  have wb: "weight \<lparr>name = ustr ''B'', weight = Finite 0, isin = None, ticker = None\<rparr> = Finite 0"
    using weight_priority_order[OF b, of "Finite 0"] b1 b2 by simp
  have wc: "weight \<lparr>name = ustr ''C'', weight = Finite 0, isin = None, ticker = None\<rparr> = Finite 0"
    using weight_priority_order[OF c, of "Finite 0"] c1 c2 by simp
  from a a1 a2 wa b b1 wb c c1 wc show ?thesis by blast
qed

text \<open>
  Claim C3 as stated fails: a \<^verbatim>\<open>weight.numeric\<close> that does not convert (here a list) gives
  the weight 0.0, although \<^verbatim>\<open>weight.rounded\<close> is present and converts to 5.0.
\<close>

theorem weight_fallback_counterexample:
  "map_of [(ustr ''asset_name'', JStr (ustr ''A'')), (ustr ''weight.numeric'', JList []),
           (ustr ''weight.rounded'', JFloat (Finite 5))] (ustr ''weight.numeric'') = Some (JList [])
   \<and> py_float (\<lambda>s. None) (JList []) = Inl TypeError
   \<and> map_of [(ustr ''asset_name'', JStr (ustr ''A'')), (ustr ''weight.numeric'', JList []),
           (ustr ''weight.rounded'', JFloat (Finite 5))] (ustr ''weight.rounded'') = Some (JFloat (Finite 5))
   \<and> py_float (\<lambda>s. None) (JFloat (Finite 5)) = Inr (Finite 5)
   \<and> process_item (\<lambda>s. None)
        (JDict [(ustr ''asset_name'', JStr (ustr ''A'')), (ustr ''weight.numeric'', JList []),
           (ustr ''weight.rounded'', JFloat (Finite 5))])
      = Inr (Some \<lparr>name = ustr ''A'', weight = Finite 0, isin = None, ticker = None\<rparr>)
   \<and> Finite 0 \<noteq> Finite 5"
  by (simp add: item_eval)

lemma map_of_filter_key:
  "map_of (filter (\<lambda>kv. fst kv \<noteq> k') item) k = (if k = k' then None else map_of item k)"
  by (induction item) auto

lemma dict_get_filter_other:
  "k \<noteq> k' \<Longrightarrow> dict_get (filter (\<lambda>kv. fst kv \<noteq> k') item) k d = dict_get item k d"
  by (simp add: dict_get_def map_of_filter_key)

lemma dict_get_filter_same:
  "dict_get (filter (\<lambda>kv. fst kv \<noteq> k') item) k' d = d"
  by (simp add: dict_get_def map_of_filter_key)

lemma isin_val_filter:
  "isin_val (filter (\<lambda>kv. fst kv \<noteq> ustr ''weight.numeric'') item) = isin_val item"
  by (simp add: isin_val_def dict_get_filter_other ustr_def)

lemma ticker_val_filter:
  "ticker_val (filter (\<lambda>kv. fst kv \<noteq> ustr ''weight.numeric'') item) = ticker_val item"
  by (simp add: ticker_val_def dict_get_filter_other ustr_def)

text \<open>
  Claim C10. A record whose \<^verbatim>\<open>weight.numeric\<close> is present and null is processed as the
  same record without that field: the weight of its entry comes from \<^verbatim>\<open>weight.rounded\<close>,
  and is 0.0 when that is null or absent too.
\<close>

theorem null_weight_numeric_as_absent:
  assumes "map_of item (ustr ''weight.numeric'') = Some JNull"
  shows "process_item parse (JDict item) =
           process_item parse (JDict (filter (\<lambda>kv. fst kv \<noteq> ustr ''weight.numeric'') item))
       \<and> (\<forall>en. process_item parse (JDict item) = Inr (Some en) \<longrightarrow>
             weight en =
               (case map_of item (ustr ''weight.rounded'') of
                  None \<Rightarrow> Finite 0
                | Some v \<Rightarrow>
                    if v = JNull then Finite 0
                    else (case py_float parse v of Inr x \<Rightarrow> x | Inl e \<Rightarrow> Finite 0)))"
proof -
  let ?f = "filter (\<lambda>kv. fst kv \<noteq> ustr ''weight.numeric'') item"
  have num: "dict_get item (ustr ''weight.numeric'') JNull = JNull"
    using assms by (simp add: dict_get_def)
  have num': "dict_get ?f (ustr ''weight.numeric'') JNull = JNull"
    by (rule dict_get_filter_same)
  have nm: "dict_get ?f (ustr ''asset_name'') (JStr []) = dict_get item (ustr ''asset_name'') (JStr [])"
    by (rule dict_get_filter_other) (simp add: ustr_def)
  have rd: "dict_get ?f (ustr ''weight.rounded'') JNull = dict_get item (ustr ''weight.rounded'') JNull"
    by (rule dict_get_filter_other) (simp add: ustr_def)
  have 1: "process_item parse (JDict item) = process_item parse (JDict ?f)"
    by (simp only: process_item.simps num num' nm rd isin_val_filter ticker_val_filter)
  have 2: "weight en =
               (case map_of item (ustr ''weight.rounded'') of
                  None \<Rightarrow> Finite 0
                | Some v \<Rightarrow>
                    if v = JNull then Finite 0
                    else (case py_float parse v of Inr x \<Rightarrow> x | Inl e \<Rightarrow> Finite 0))"
    if "process_item parse (JDict item) = Inr (Some en)" for en
    using that num
    by (auto simp: Let_def item_weight_def catch_weight_def dict_get_def
        split: sum.splits if_splits option.splits error.splits)
  from 1 2 show ?thesis by blast
qed

text \<open>A null \<^verbatim>\<open>weight.numeric\<close> beside \<^verbatim>\<open>weight.rounded\<close> = 2.5.\<close>

theorem null_weight_numeric_as_absent_witness:
  "map_of [(ustr ''asset_name'', JStr (ustr ''A'')), (ustr ''weight.numeric'', JNull),
           (ustr ''weight.rounded'', JFloat (Finite (5 / 2)))] (ustr ''weight.numeric'') = Some JNull
   \<and> process_item (\<lambda>s. None)
        (JDict [(ustr ''asset_name'', JStr (ustr ''A'')), (ustr ''weight.numeric'', JNull),
           (ustr ''weight.rounded'', JFloat (Finite (5 / 2)))])
      = Inr (Some \<lparr>name = ustr ''A'', weight = Finite (5 / 2), isin = None, ticker = None\<rparr>)
   \<and> process_item (\<lambda>s. None)
        (JDict (filter (\<lambda>kv. fst kv \<noteq> ustr ''weight.numeric'')
          [(ustr ''asset_name'', JStr (ustr ''A'')), (ustr ''weight.numeric'', JNull),
           (ustr ''weight.rounded'', JFloat (Finite (5 / 2)))]))
      = Inr (Some \<lparr>name = ustr ''A'', weight = Finite (5 / 2), isin = None, ticker = None\<rparr>)"
proof -
  let ?item = "[(ustr ''asset_name'', JStr (ustr ''A'')), (ustr ''weight.numeric'', JNull),
           (ustr ''weight.rounded'', JFloat (Finite (5 / 2)))]"
  have a: "map_of ?item (ustr ''weight.numeric'') = Some JNull"
    by (simp add: ustr_def)
  have b: "process_item (\<lambda>s. None) (JDict ?item)
      = Inr (Some \<lparr>name = ustr ''A'', weight = Finite (5 / 2), isin = None, ticker = None\<rparr>)"
    by (simp add: item_eval)
  from null_weight_numeric_as_absent[OF a, of "\<lambda>s. None"] a b show ?thesis by metis
qed

section \<open>Order of the holdings\<close>

text \<open>
  Claim C4, as amended. Whenever the report is produced and no weight in it is a NaN: of
  any two entries of \<open>holdings\<close> the earlier one has a weight \<open>\<ge>\<close> the later one's, the
  entries of any one weight stand in the order in which their records stand in the input,
  and the holdings are the entries of the records, each once.
\<close>

theorem sorted_descending_stable:
  assumes "normalize_holdings parse cid structure = Inr r"
    and "\<forall>en \<in> set (holdings r). \<not> is_nan (weight en)"
  shows "(\<forall>i j. i < j \<and> j < length (holdings r) \<longrightarrow>
            fl_ge (weight (holdings r ! i)) (weight (holdings r ! j)))
       \<and> (\<forall>w. filter (\<lambda>en. fl_eq (weight en) w) (holdings r) =
               filter (\<lambda>en. fl_eq (weight en) w) (kept_entries parse structure))
       \<and> mset (holdings r) = mset (kept_entries parse structure)"
proof -
  let ?es = "kept_entries parse structure"
  have h: "holdings r = list_sort weight True ?es"
    using normalize_holdings_Inr(1)[OF assms(1)] .
  have "\<forall>en \<in> set ?es. \<not> is_nan (weight en)"
    using assms(2) by (simp add: h set_list_sort)
  then have "sorted_wrt (\<lambda>a b. fl_ge (weight a) (weight b)) (holdings r)"
    unfolding h by (rule sorted_list_sort_reverse)
  then have "\<forall>i j. i < j \<and> j < length (holdings r) \<longrightarrow>
            fl_ge (weight (holdings r ! i)) (weight (holdings r ! j))"
    by (simp add: sorted_wrt_iff_nth_less)
  then show ?thesis by (simp add: h filter_list_sort mset_list_sort)
qed

text \<open>Three records, two of them of equal weight.\<close>

theorem sorted_descending_stable_witness:
  "normalize_holdings (\<lambda>s. None) (JInt 1807)
     [JDict [(ustr ''asset_name'', JStr (ustr ''A'')), (ustr ''weight.rounded'', JFloat (Finite 1))],
      JDict [(ustr ''asset_name'', JStr (ustr ''B'')), (ustr ''weight.rounded'', JFloat (Finite 2))],
      JDict [(ustr ''asset_name'', JStr (ustr ''C'')), (ustr ''weight.rounded'', JFloat (Finite 1))]]
   = Inr \<lparr>holdings =
            [\<lparr>name = ustr ''B'', weight = Finite 2, isin = None, ticker = None\<rparr>,
             \<lparr>name = ustr ''A'', weight = Finite 1, isin = None, ticker = None\<rparr>,
             \<lparr>name = ustr ''C'', weight = Finite 1, isin = None, ticker = None\<rparr>],
          cbondsId = JInt 1807, totalCount = 3,
          availableFields = [ustr ''asset_name'', ustr ''weight.rounded'']\<rparr>
   \<and> filter (\<lambda>en. fl_eq (weight en) (Finite 1))
        [\<lparr>name = ustr ''B'', weight = Finite 2, isin = None, ticker = None\<rparr>,
         \<lparr>name = ustr ''A'', weight = Finite 1, isin = None, ticker = None\<rparr>,
         \<lparr>name = ustr ''C'', weight = Finite 1, isin = None, ticker = None\<rparr>]
     = filter (\<lambda>en. fl_eq (weight en) (Finite 1))
        (kept_entries (\<lambda>s. None)
          [JDict [(ustr ''asset_name'', JStr (ustr ''A'')), (ustr ''weight.rounded'', JFloat (Finite 1))],
           JDict [(ustr ''asset_name'', JStr (ustr ''B'')), (ustr ''weight.rounded'', JFloat (Finite 2))],
           JDict [(ustr ''asset_name'', JStr (ustr ''C'')), (ustr ''weight.rounded'', JFloat (Finite 1))]])
   \<and> fl_ge (Finite 2) (Finite 1) \<and> fl_ge (Finite 1) (Finite 1)"
proof -
  let ?s = "[JDict [(ustr ''asset_name'', JStr (ustr ''A'')), (ustr ''weight.rounded'', JFloat (Finite 1))],
      JDict [(ustr ''asset_name'', JStr (ustr ''B'')), (ustr ''weight.rounded'', JFloat (Finite 2))],
      JDict [(ustr ''asset_name'', JStr (ustr ''C'')), (ustr ''weight.rounded'', JFloat (Finite 1))]]"
  let ?hs = "[\<lparr>name = ustr ''B'', weight = Finite 2, isin = None, ticker = None\<rparr>,
             \<lparr>name = ustr ''A'', weight = Finite 1, isin = None, ticker = None\<rparr>,
             \<lparr>name = ustr ''C'', weight = Finite 1, isin = None, ticker = None\<rparr>]"
  let ?r = "\<lparr>holdings = ?hs, cbondsId = JInt 1807, totalCount = 3,
          availableFields = [ustr ''asset_name'', ustr ''weight.rounded'']\<rparr>"
  have e: "normalize_holdings (\<lambda>s. None) (JInt 1807) ?s = Inr ?r"
    by (simp add: item_eval fl_lt_def)
  have n: "\<forall>en \<in> set (holdings ?r). \<not> is_nan (weight en)" by simp
  note c = sorted_descending_stable[OF e n]
  from c have ord: "\<forall>i j. i < j \<and> j < length (holdings ?r) \<longrightarrow>
            fl_ge (weight (holdings ?r ! i)) (weight (holdings ?r ! j))"
    by blast
  from c have "\<forall>w. filter (\<lambda>en. fl_eq (weight en) w) (holdings ?r) =
               filter (\<lambda>en. fl_eq (weight en) w) (kept_entries (\<lambda>s. None) ?s)"
    by blast
  then have st: "filter (\<lambda>en. fl_eq (weight en) (Finite 1)) ?hs
            = filter (\<lambda>en. fl_eq (weight en) (Finite 1)) (kept_entries (\<lambda>s. None) ?s)"
    by simp
  from ord[rule_format, of 0 1] have o1: "fl_ge (Finite 2) (Finite 1)" by simp
  from ord[rule_format, of 1 2] have o2: "fl_ge (Finite 1) (Finite 1)" by simp
  from e st o1 o2 show ?thesis by blast
qed

text \<open>
  Claim C4 as stated fails where a weight is a NaN (\<^verbatim>\<open>json.loads\<close> reads the literal
  \<^verbatim>\<open>NaN\<close>): neither order of the two entries has the earlier weight \<open>\<ge>\<close> the later.
\<close>

theorem nan_weight_counterexample:
  "normalize_holdings (\<lambda>s. None) (JInt 1807)
     [JDict [(ustr ''asset_name'', JStr (ustr ''A'')), (ustr ''weight.rounded'', JFloat NaN)],
      JDict [(ustr ''asset_name'', JStr (ustr ''B'')), (ustr ''weight.rounded'', JFloat (Finite 1))]]
   = Inr \<lparr>holdings =
            [\<lparr>name = ustr ''A'', weight = NaN, isin = None, ticker = None\<rparr>,
             \<lparr>name = ustr ''B'', weight = Finite 1, isin = None, ticker = None\<rparr>],
          cbondsId = JInt 1807, totalCount = 2,
          availableFields = [ustr ''asset_name'', ustr ''weight.rounded'']\<rparr>
   \<and> \<not> fl_ge NaN (Finite 1) \<and> \<not> fl_ge (Finite 1) NaN"
  by (simp add: item_eval fl_lt_def fl_ge_def fl_eq_def)

section \<open>The report on given inputs\<close>

text \<open>
  Claim C7. The three records of the scenario (weights 0.071234 fractional, an empty name,
  5.0 pre-rounded) give the holdings Apple Inc with 7.12 and Microsoft with 5.0, and the
  count 2. A decimal literal is the float nearest to it.
\<close>

theorem end_to_end_scenario:
  "normalize_holdings parse cbonds_id
     [JDict [(ustr ''asset_name'', JStr (ustr ''Apple Inc'')),
             (ustr ''weight.numeric'', JFloat (round_double (71234 / 1000000)))],
      JDict [(ustr ''asset_name'', JStr []),
             (ustr ''weight.numeric'', JFloat (round_double (5 / 100)))],
      JDict [(ustr ''asset_name'', JStr (ustr ''Microsoft'')),
             (ustr ''weight.rounded'', JFloat (Finite 5))]]
   = Inr \<lparr>holdings =
            [\<lparr>name = ustr ''Apple Inc'', weight = round_double (712 / 100), isin = None, ticker = None\<rparr>,
             \<lparr>name = ustr ''Microsoft'', weight = Finite 5, isin = None, ticker = None\<rparr>],
          cbondsId = cbonds_id, totalCount = 2,
          availableFields = [ustr ''asset_name'', ustr ''weight.numeric'']\<rparr>"
  by (simp add: item_eval float_eval fl_lt_def)

text \<open>
  Claim C9. The empty input gives no holdings, the count 0 and no field names; for an
  input that starts with a record, a report has the field names of that first record,
  whatever the rest holds.
\<close>

theorem empty_and_available_fields:
  "normalize_holdings parse cid [] =
     Inr \<lparr>holdings = [], cbondsId = cid, totalCount = 0, availableFields = []\<rparr>
   \<and> (\<forall>d rest r. normalize_holdings parse cid (JDict d # rest) = Inr r \<longrightarrow>
          availableFields r = map fst d)"
proof -
  have "normalize_holdings parse cid [] =
     Inr \<lparr>holdings = [], cbondsId = cid, totalCount = 0, availableFields = []\<rparr>"
    by (simp add: normalize_holdings_def list_sort_def)
  moreover have "availableFields r = map fst d"
    if "normalize_holdings parse cid (JDict d # rest) = Inr r" for d rest r
    using normalize_holdings_Inr(4)[OF that] by simp
  ultimately show ?thesis by blast
qed

text \<open>The first record is skipped for its empty name; its field names are still the ones reported.\<close>

theorem empty_and_available_fields_witness:
  "normalize_holdings (\<lambda>s. None) (JInt 1807)
     (JDict [(ustr ''asset_name'', JStr []), (ustr ''note'', JNull)] #
      [JDict [(ustr ''asset_name'', JStr (ustr ''B'')), (ustr ''isin'', JStr (ustr ''X''))]])
   = Inr \<lparr>holdings = [\<lparr>name = ustr ''B'', weight = Finite 0, isin = Some (ustr ''X''), ticker = None\<rparr>],
          cbondsId = JInt 1807, totalCount = 1,
          availableFields = [ustr ''asset_name'', ustr ''note'']\<rparr>
   \<and> availableFields \<lparr>holdings = [\<lparr>name = ustr ''B'', weight = Finite 0, isin = Some (ustr ''X''), ticker = None\<rparr>],
          cbondsId = JInt 1807, totalCount = 1,
          availableFields = [ustr ''asset_name'', ustr ''note'']\<rparr>
     = map fst [(ustr ''asset_name'', JStr []), (ustr ''note'', JNull)]"
proof -
  have e: "normalize_holdings (\<lambda>s. None) (JInt 1807)
     (JDict [(ustr ''asset_name'', JStr []), (ustr ''note'', JNull)] #
      [JDict [(ustr ''asset_name'', JStr (ustr ''B'')), (ustr ''isin'', JStr (ustr ''X''))]])
   = Inr \<lparr>holdings = [\<lparr>name = ustr ''B'', weight = Finite 0, isin = Some (ustr ''X''), ticker = None\<rparr>],
          cbondsId = JInt 1807, totalCount = 1,
          availableFields = [ustr ''asset_name'', ustr ''note'']\<rparr>"
    by (simp add: item_eval)
  from empty_and_available_fields[of "\<lambda>s. None" "JInt 1807"] e show ?thesis by blast
qed

end
